theory Spec2Isabelle
  imports Complex_Main
begin

section \<open>Python strings\<close>

text \<open>
  A Python \<^verbatim>\<open>str\<close> is a sequence of code points. The model is \<^typ>\<open>string\<close>, one
  \<^typ>\<open>char\<close> per code point, which covers the code points 0..255. The character
  classes below are those of CPython 3 on that range: \<^verbatim>\<open>str.isdigit\<close>,
  \<^verbatim>\<open>str.isprintable\<close>, \<^verbatim>\<open>str.isalpha\<close>, and the whitespace of
  \<^verbatim>\<open>str.split()\<close> and of the pattern escape \<^verbatim>\<open>\s\<close>; \<^verbatim>\<open>\d\<close> is the decimal digits.
\<close>

definition ord :: "char \<Rightarrow> nat" where
  "ord c = of_char c"

definition decimal_char :: "char \<Rightarrow> bool" where
  "decimal_char c \<longleftrightarrow> 48 \<le> ord c \<and> ord c \<le> 57"

definition isdigit_char :: "char \<Rightarrow> bool" where
  "isdigit_char c \<longleftrightarrow> decimal_char c \<or> ord c = 178 \<or> ord c = 179 \<or> ord c = 185"

definition isspace_char :: "char \<Rightarrow> bool" where
  "isspace_char c \<longleftrightarrow>
     (9 \<le> ord c \<and> ord c \<le> 13) \<or> (28 \<le> ord c \<and> ord c \<le> 32) \<or> ord c = 133 \<or> ord c = 160"

definition isprintable_char :: "char \<Rightarrow> bool" where
  "isprintable_char c \<longleftrightarrow>
     (32 \<le> ord c \<and> ord c \<le> 126) \<or> (161 \<le> ord c \<and> ord c \<noteq> 173)"

definition isalpha_char :: "char \<Rightarrow> bool" where
  "isalpha_char c \<longleftrightarrow>
     (65 \<le> ord c \<and> ord c \<le> 90) \<or> (97 \<le> ord c \<and> ord c \<le> 122) \<or>
     ord c = 170 \<or> ord c = 181 \<or> ord c = 186 \<or>
     (192 \<le> ord c \<and> ord c \<noteq> 215 \<and> ord c \<noteq> 247)"

definition isdigit :: "string \<Rightarrow> bool" where
  "isdigit s \<longleftrightarrow> s \<noteq> [] \<and> list_all isdigit_char s"

definition isprintable :: "string \<Rightarrow> bool" where
  "isprintable s \<longleftrightarrow> list_all isprintable_char s"

definition startswith :: "string \<Rightarrow> string \<Rightarrow> bool" where
  "startswith s p \<longleftrightarrow> take (length p) s = p"

text \<open>\<^verbatim>\<open>s.split()\<close>: the maximal runs of non-whitespace, in order.\<close>

fun split_ws :: "string \<Rightarrow> string \<Rightarrow> string list" where
  "split_ws cur [] = (if cur = [] then [] else [cur])"
| "split_ws cur (c # cs) =
     (if isspace_char c then (if cur = [] then split_ws [] cs else cur # split_ws [] cs)
      else split_ws (cur @ [c]) cs)"

definition split :: "string \<Rightarrow> string list" where
  "split s = split_ws [] s"

text \<open>Truthiness of an optional string: \<^verbatim>\<open>None\<close> and \<^verbatim>\<open>''\<close> are both false.\<close>

definition truthy :: "string option \<Rightarrow> bool" where
  "truthy h = (case h of None \<Rightarrow> False | Some s \<Rightarrow> s \<noteq> [])"


section \<open>The patterns of the repository and \<^verbatim>\<open>re.match\<close>\<close>

text \<open>
  Every pattern of the repository has the shape \<^verbatim>\<open>^ piece ... piece $\<close>, where a piece
  is a character class with a repetition count: a literal character is a class of one
  member repeated once, \<^verbatim>\<open>{m,n}\<close> gives both bounds and \<^verbatim>\<open>+\<close> is one or more. A
  pattern is the list of its pieces. \<^verbatim>\<open>re.match\<close> succeeds when some way of choosing
  the repetition counts consumes a prefix of the subject up to a place where
  \<^verbatim>\<open>$\<close> holds: the end of the subject, or just before a final newline.
\<close>

datatype atom = Digit | Space | Lit char | Range char char

datatype piece = Piece "atom list" nat "nat option"

type_synonym pattern = "piece list"

fun in_atom :: "atom \<Rightarrow> char \<Rightarrow> bool" where
  "in_atom Digit c = decimal_char c"
| "in_atom Space c = isspace_char c"
| "in_atom (Lit x) c = (c = x)"
| "in_atom (Range lo hi) c = (ord lo \<le> ord c \<and> ord c \<le> ord hi)"

definition in_class :: "atom list \<Rightarrow> char \<Rightarrow> bool" where
  "in_class cls c = list_ex (\<lambda>a. in_atom a c) cls"

definition at_end :: "string \<Rightarrow> bool" where
  "at_end s \<longleftrightarrow> s = [] \<or> s = [CHR 0x0A]"

fun re_match :: "pattern \<Rightarrow> string \<Rightarrow> bool" where
  "re_match [] s = at_end s"
| "re_match (Piece cls lo hi # ps) s =
     ((lo = 0 \<and> re_match ps s) \<or>
      (hi \<noteq> Some 0 \<and>
       (case s of [] \<Rightarrow> False
        | c # cs \<Rightarrow> in_class cls c \<and>
            re_match (Piece cls (lo - 1) (map_option (\<lambda>h. h - 1) hi) # ps) cs)))"

definition lit :: "string \<Rightarrow> pattern" where
  "lit s = map (\<lambda>c. Piece [Lit c] 1 (Some 1)) s"

definition dig :: "nat \<Rightarrow> nat \<Rightarrow> piece" where
  "dig m n = Piece [Digit] m (Some n)"

definition sp :: "piece" where
  "sp = Piece [Space] 1 (Some 1)"

definition upper :: atom where
  "upper = Range (CHR ''A'') (CHR ''Z'')"

definition digit09 :: atom where
  "digit09 = Range (CHR ''0'') (CHR ''9'')"


section \<open>utils/constants.py\<close>

text \<open>\<^verbatim>\<open>PROVIDERS\<close>: a dict in insertion order, each entry with its display name (not
  modelled: no operation below reads it apart from the parsers, which spell it out) and
  its patterns.\<close>

definition PROVIDERS :: "(string \<times> pattern list) list" where
  "PROVIDERS =
    [(''seven_ticket'', [lit ''23'' @ [dig 6 6, sp, dig 8 8, sp, dig 3 3], [dig 6 6, sp, dig 8 8, sp, dig 3 3]]),
     (''ticket_pia'', [lit ''64'' @ [dig 11 11], lit ''640032'' @ [dig 7 7]]),
     (''lawson_ticket'', [lit ''30'' @ [dig 11 11], lit ''L'' @ [dig 10 10]]),
     (''eplus'', [lit ''EP'' @ [dig 10 10]]),
     (''cnplayguide'', [lit ''CN'' @ [dig 10 10]])]"


section \<open>services/barcode\_scanner.py\<close>

definition provider_patterns :: "(string \<times> pattern list) list" where
  "provider_patterns =
    [(''seven_ticket'', [lit ''23'' @ [dig 6 6, sp, dig 8 8, sp, dig 3 3], [dig 6 6, sp, dig 8 8, sp, dig 3 3]]),
     (''ticket_pia'', [lit ''64'' @ [dig 11 11], lit ''640032'' @ [dig 7 7]]),
     (''lawson_ticket'', [lit ''30'' @ [dig 11 11], lit ''L'' @ [dig 10 10]]),
     (''eplus'', [lit ''EP'' @ [dig 10 10]]),
     (''cnplayguide'', [lit ''CN'' @ [dig 10 10]])]"

definition validate_provider_pattern :: "string \<Rightarrow> string \<Rightarrow> bool" where
  "validate_provider_pattern data provider =
     (let patterns = (case map_of provider_patterns provider of None \<Rightarrow> [] | Some ps \<Rightarrow> ps)
      in list_ex (\<lambda>pattern. re_match pattern data) patterns)"

definition generic_patterns :: "pattern list" where
  "generic_patterns =
    [[dig 6 20],
     [Piece [upper] 2 (Some 2), dig 8 15],
     [dig 2 3, sp, dig 3 15],
     [Piece [upper, digit09, Lit (CHR ''-'')] 6 (Some 25)]]"

definition validate_result :: "string \<Rightarrow> string option \<Rightarrow> bool" where
  "validate_result data provider_hint =
     (if data = [] \<or> length data < 3 then False
      else if \<not> isprintable data then False
      else if truthy provider_hint then validate_provider_pattern data (the provider_hint)
      else list_ex (\<lambda>pattern. re_match pattern data) generic_patterns)"

definition code39_class :: "atom list" where
  "code39_class =
     [upper, digit09, Lit (CHR ''-''), Lit (CHR ''.''), Space, Lit (CHR ''$''), Lit (CHR ''/''),
      Lit (CHR ''+''), Lit (CHR ''%'')]"

definition detect_format :: "string \<Rightarrow> string" where
  "detect_format data =
     (if length data = 13 \<and> isdigit data then ''EAN13''
      else if re_match [Piece code39_class 1 None] data then
        (if length data \<le> 43 then ''CODE39'' else ''CODE128'')
      else if isdigit data \<and> length data mod 2 = 0 then ''ITF''
      else ''CODE128'')"

definition engine_weights :: "(string \<times> real) list" where
  "engine_weights = [(''pyzbar'', 0.3), (''zxing'', 0.25), (''opencv'', 0.1)]"

definition variant_weights :: "(string \<times> real) list" where
  "variant_weights = [(''standard'', 0.2), (''high_contrast'', 0.15), (''edge_enhanced'', 0.1)]"

definition get_or :: "('k \<times> 'v) list \<Rightarrow> 'k \<Rightarrow> 'v \<Rightarrow> 'v" where
  "get_or table k dflt = (case map_of table k of None \<Rightarrow> dflt | Some v \<Rightarrow> v)"

text \<open>The score is a Python float; the model computes it in exact arithmetic.\<close>

definition calculate_confidence :: "string \<Rightarrow> string \<Rightarrow> string \<Rightarrow> string option \<Rightarrow> real" where
  "calculate_confidence data variant engine provider_hint =
     (let base_score = 0.5;
          base_score = base_score + get_or engine_weights engine 0.1;
          base_score = base_score + get_or variant_weights variant 0.05;
          base_score = (if truthy provider_hint \<and> validate_provider_pattern data (the provider_hint)
                        then base_score + 0.2 else base_score);
          base_score = (if isdigit data \<or> re_match [Piece [upper, digit09, Space] 1 None] data
                        then base_score + 0.1 else base_score)
      in min base_score 1.0)"

text \<open>
  A call either returns a value or raises; \<^verbatim>\<open>try\<close>/\<^verbatim>\<open>except\<close> is a case split on
  the outcome.
\<close>

datatype 'a outcome = Returned 'a | Raised

definition and_then :: "'a outcome \<Rightarrow> ('a \<Rightarrow> 'b outcome) \<Rightarrow> 'b outcome" where
  "and_then m f = (case m of Raised \<Rightarrow> Raised | Returned a \<Rightarrow> f a)"

record 'img image_variant =
  name :: string
  image :: 'img
  description :: string

text \<open>
  An entry of \<^verbatim>\<open>self.engines\<close>. The decode function of an engine is a library call
  (pyzbar, zxing, OpenCV): it is a parameter of the model and may raise.
\<close>

record 'img scan_engine =
  engine_name :: string
  scan_function :: "'img \<Rightarrow> string option \<Rightarrow> string list outcome"
  priority :: int
  formats :: "string list"

record 'img scanner =
  engines :: "'img scan_engine list"
  ml_model :: "unit option"

text \<open>
  An element of the result list. \<^verbatim>\<open>time.time()\<close> is read once for each appended
  result: \<open>clock n\<close> is the reading at the \<open>n\<close>-th append of a scan.
\<close>

record scan_result =
  data :: string
  format :: string
  engine :: string
  variant :: string
  confidence :: real
  timestamp :: real

text \<open>The loop \<^verbatim>\<open>for result in results\<close>.\<close>

fun scan_results ::
  "(nat \<Rightarrow> real) \<Rightarrow> string option \<Rightarrow> string \<Rightarrow> string \<Rightarrow> string list \<Rightarrow>
   scan_result list \<Rightarrow> scan_result list" where
  "scan_results clock provider_hint variant_name engine_nm [] all_results = all_results"
| "scan_results clock provider_hint variant_name engine_nm (result # results) all_results =
     scan_results clock provider_hint variant_name engine_nm results
       (if validate_result result provider_hint
        then all_results @
          [\<lparr>data = result, format = detect_format result, engine = engine_nm,
            variant = variant_name,
            confidence = calculate_confidence result variant_name engine_nm provider_hint,
            timestamp = clock (length all_results)\<rparr>]
        else all_results)"

text \<open>The loop \<^verbatim>\<open>for engine in self.engines\<close>; an engine that raises is skipped.\<close>

fun scan_engines ::
  "(nat \<Rightarrow> real) \<Rightarrow> string option \<Rightarrow> string option \<Rightarrow> 'img image_variant \<Rightarrow>
   'img scan_engine list \<Rightarrow> scan_result list \<Rightarrow> scan_result list" where
  "scan_engines clock provider_hint format_hint v [] all_results = all_results"
| "scan_engines clock provider_hint format_hint v (e # es) all_results =
     scan_engines clock provider_hint format_hint v es
       (if truthy format_hint \<and> the format_hint \<notin> set (formats e) then all_results
        else (case scan_function e (image v) format_hint of
                Raised \<Rightarrow> all_results
              | Returned results \<Rightarrow>
                  scan_results clock provider_hint (name v) (engine_name e) results all_results))"

text \<open>The loop \<^verbatim>\<open>for variant in variants\<close>.\<close>

fun scan_variants ::
  "(nat \<Rightarrow> real) \<Rightarrow> string option \<Rightarrow> string option \<Rightarrow> 'img scan_engine list \<Rightarrow>
   'img image_variant list \<Rightarrow> scan_result list \<Rightarrow> scan_result list" where
  "scan_variants clock provider_hint format_hint es [] all_results = all_results"
| "scan_variants clock provider_hint format_hint es (v # vs) all_results =
     scan_variants clock provider_hint format_hint es vs
       (scan_engines clock provider_hint format_hint v es all_results)"

fun remove_duplicates_loop ::
  "scan_result list \<Rightarrow> string set \<Rightarrow> scan_result list \<Rightarrow> scan_result list" where
  "remove_duplicates_loop [] seen unique_results = unique_results"
| "remove_duplicates_loop (result # results) seen unique_results =
     (if data result \<notin> seen
      then remove_duplicates_loop results (insert (data result) seen) (unique_results @ [result])
      else remove_duplicates_loop results seen unique_results)"

definition remove_duplicates :: "scan_result list \<Rightarrow> scan_result list" where
  "remove_duplicates results = remove_duplicates_loop results {} []"

definition apply_ml_ranking :: "scan_result list \<Rightarrow> scan_result list" where
  "apply_ml_ranking results = results"

text \<open>
  \<^verbatim>\<open>sorted(xs, key=k, reverse=True)\<close>: CPython reverses the list, sorts it stably in
  ascending order of the key, and reverses the result.
\<close>

definition sorted_reverse :: "('a \<Rightarrow> 'k::linorder) \<Rightarrow> 'a list \<Rightarrow> 'a list" where
  "sorted_reverse k xs = rev (sort_key k (rev xs))"

text \<open>The list \<^verbatim>\<open>all_results\<close> at the end of the two nested loops.\<close>

definition all_results ::
  "'img scanner \<Rightarrow> (nat \<Rightarrow> real) \<Rightarrow> 'img image_variant list \<Rightarrow> string option \<Rightarrow>
   string option \<Rightarrow> scan_result list" where
  "all_results self clock variants provider_hint format_hint =
     scan_variants clock provider_hint format_hint (engines self) variants []"

definition scan_multiple_variants ::
  "'img scanner \<Rightarrow> (nat \<Rightarrow> real) \<Rightarrow> 'img image_variant list \<Rightarrow> string option \<Rightarrow>
   string option \<Rightarrow> bool \<Rightarrow> scan_result list" where
  "scan_multiple_variants self clock variants provider_hint format_hint enable_ml =
     (let unique_results = remove_duplicates (all_results self clock variants provider_hint format_hint);
          unique_results =
            (if enable_ml \<and> length unique_results > 1 \<and> ml_model self \<noteq> None
             then apply_ml_ranking unique_results else unique_results)
      in sorted_reverse confidence unique_results)"

definition select_best_result :: "scan_result list \<Rightarrow> scan_result option" where
  "select_best_result results = (case results of [] \<Rightarrow> None | r # _ \<Rightarrow> Some r)"

text \<open>
  The position at which the first result carrying a given payload was appended to
  \<^verbatim>\<open>all_results\<close>: its place in generation order (variant-major, engine-minor).
\<close>

definition sequence_index :: "scan_result list \<Rightarrow> string \<Rightarrow> nat" where
  "sequence_index rs x = length (takeWhile (\<lambda>r. data r \<noteq> x) rs)"


section \<open>services/provider\_parser.py\<close>

text \<open>
  The values of a parsed dict. A display name has code points beyond 255 and is given as
  the list of its code points.
\<close>

datatype pyvalue = PyStr string | PyText "nat list" | PyInt int | PyBool bool | PyList "string list"

type_synonym parsed = "string \<rightharpoonup> pyvalue"

fun first_provider :: "(string \<times> pattern list) list \<Rightarrow> string \<Rightarrow> string option" where
  "first_provider [] barcode_data = None"
| "first_provider ((provider_id, patterns) # rest) barcode_data =
     (if list_ex (\<lambda>pattern. re_match pattern barcode_data) patterns then Some provider_id
      else first_provider rest barcode_data)"

definition detect_provider :: "string \<Rightarrow> string option" where
  "detect_provider barcode_data =
     (if barcode_data = [] then None else first_provider PROVIDERS barcode_data)"

definition parse_seven_ticket :: "string \<Rightarrow> parsed" where
  "parse_seven_ticket x =
     (let parsed = [''provider'' \<mapsto> PyStr ''seven_ticket'',
                    ''provider_name'' \<mapsto> PyText [0x30BB, 0x30D6, 0x30F3, 0x30C1, 0x30B1, 0x30C3, 0x30C8],
                    ''raw_data'' \<mapsto> PyStr x];
          parts = split x
      in if length parts \<ge> 3 then
           (let parsed = parsed(''ticket_number'' \<mapsto> PyStr (parts ! 0),
                                ''serial_number'' \<mapsto> PyStr (parts ! 1),
                                ''check_digit'' \<mapsto> PyStr (parts ! 2))
            in if startswith (parts ! 0) ''23''
               then parsed(''store_code'' \<mapsto> PyStr (parts ! 0), ''ticket_id'' \<mapsto> PyStr (parts ! 1))
               else parsed(''ticket_id'' \<mapsto> PyStr (parts ! 0), ''serial_id'' \<mapsto> PyStr (parts ! 1)))
         else parsed)"

definition parse_ticket_pia :: "string \<Rightarrow> parsed" where
  "parse_ticket_pia x =
     (let parsed = [''provider'' \<mapsto> PyStr ''ticket_pia'',
                    ''provider_name'' \<mapsto> PyText [0x30C1, 0x30B1, 0x30C3, 0x30C8, 0x3074, 0x3042],
                    ''raw_data'' \<mapsto> PyStr x]
      in if startswith x ''640032''
         then parsed(''prefix'' \<mapsto> PyStr ''640032'', ''ticket_number'' \<mapsto> PyStr (drop 6 x))
         else parsed(''prefix'' \<mapsto> PyStr ''64'', ''ticket_number'' \<mapsto> PyStr (drop 2 x)))"

definition parse_lawson_ticket :: "string \<Rightarrow> parsed" where
  "parse_lawson_ticket x =
     (let parsed = [''provider'' \<mapsto> PyStr ''lawson_ticket'',
                    ''provider_name'' \<mapsto>
                      PyText [0x30ED, 0x30FC, 0x30BD, 0x30F3, 0x30C1, 0x30B1, 0x30C3, 0x30C8],
                    ''raw_data'' \<mapsto> PyStr x]
      in if startswith x ''30''
         then parsed(''prefix'' \<mapsto> PyStr ''30'', ''ticket_number'' \<mapsto> PyStr (drop 2 x))
         else if startswith x ''L''
         then parsed(''prefix'' \<mapsto> PyStr ''L'', ''ticket_number'' \<mapsto> PyStr (drop 1 x))
         else parsed)"

definition parse_eplus :: "string \<Rightarrow> parsed" where
  "parse_eplus x =
     [''provider'' \<mapsto> PyStr ''eplus'',
      ''provider_name'' \<mapsto> PyText [0x30A4, 0x30FC, 0x30D7, 0x30E9, 0x30B9],
      ''raw_data'' \<mapsto> PyStr x,
      ''prefix'' \<mapsto> PyStr ''EP'',
      ''ticket_number'' \<mapsto> PyStr (drop 2 x)]"

definition parse_cnplayguide :: "string \<Rightarrow> parsed" where
  "parse_cnplayguide x =
     [''provider'' \<mapsto> PyStr ''cnplayguide'',
      ''provider_name'' \<mapsto> PyText [0x43, 0x4E, 0x30D7, 0x30EC, 0x30A4, 0x30AC, 0x30A4, 0x30C9],
      ''raw_data'' \<mapsto> PyStr x,
      ''prefix'' \<mapsto> PyStr ''CN'',
      ''ticket_number'' \<mapsto> PyStr (drop 2 x)]"

definition parse_generic :: "string \<Rightarrow> parsed" where
  "parse_generic x =
     (let parsed = [''provider'' \<mapsto> PyStr ''unknown'',
                    ''provider_name'' \<mapsto> PyStr ''Unknown'',
                    ''raw_data'' \<mapsto> PyStr x,
                    ''length'' \<mapsto> PyInt (int (length x)),
                    ''is_numeric'' \<mapsto> PyBool (isdigit x),
                    ''has_spaces'' \<mapsto> PyBool (CHR '' '' \<in> set x),
                    ''has_letters'' \<mapsto> PyBool (list_ex isalpha_char x)]
      in if CHR '' '' \<in> set x
         then (let parts = split x
               in parsed(''parts'' \<mapsto> PyList parts, ''part_count'' \<mapsto> PyInt (int (length parts))))
         else parsed)"

text \<open>
  \<^verbatim>\<open>getattr(self, f'_parse_{provider}', None)\<close>: the methods of the class whose name
  starts with \<^verbatim>\<open>_parse_\<close>, by the rest of their name.
\<close>

definition parser_method :: "string \<Rightarrow> (string \<Rightarrow> parsed) option" where
  "parser_method provider =
     map_of [(''seven_ticket'', parse_seven_ticket), (''ticket_pia'', parse_ticket_pia),
             (''lawson_ticket'', parse_lawson_ticket), (''eplus'', parse_eplus),
             (''cnplayguide'', parse_cnplayguide), (''generic'', parse_generic)] provider"

definition parse :: "string \<Rightarrow> string option \<Rightarrow> parsed" where
  "parse barcode_data provider =
     (if barcode_data = [] then Map.empty
      else
        (let provider = (if \<not> truthy provider then detect_provider barcode_data else provider)
         in if \<not> truthy provider then parse_generic barcode_data
            else (case parser_method (the provider) of
                    Some m \<Rightarrow> m barcode_data
                  | None \<Rightarrow> parse_generic barcode_data)))"


section \<open>services/image\_processor.py\<close>

text \<open>
  The calls into PIL, NumPy and OpenCV are parameters of the model: \<open>'pil\<close> is the
  type of PIL images and \<open>'arr\<close> the type of arrays. Each call that can raise returns
  an \<^typ>\<open>'a outcome\<close>.
\<close>

datatype pil_filter = EDGE_ENHANCE | MedianFilter nat | UnsharpMask nat nat nat

record ('pil, 'arr) imaging =
  Image_open :: "nat list \<Rightarrow> 'pil outcome"
  image_size :: "'pil \<Rightarrow> nat \<times> nat"
  image_mode :: "'pil \<Rightarrow> string"
  image_resize :: "'pil \<Rightarrow> int \<times> int \<Rightarrow> 'pil outcome"
  image_convert :: "'pil \<Rightarrow> string \<Rightarrow> 'pil outcome"
  image_filter :: "'pil \<Rightarrow> pil_filter \<Rightarrow> 'pil outcome"
  Contrast_enhance :: "'pil \<Rightarrow> real \<Rightarrow> 'pil outcome"
  np_array :: "'pil \<Rightarrow> 'arr outcome"
  Image_fromarray :: "'arr \<Rightarrow> 'pil outcome"
  cvtColor_RGB2BGR :: "'arr \<Rightarrow> 'arr outcome"
  adaptiveThreshold :: "'arr \<Rightarrow> 'arr outcome"
  float_div :: "nat \<Rightarrow> nat \<Rightarrow> real"
  float_mul :: "nat \<Rightarrow> real \<Rightarrow> real"

definition max_width :: nat where
  "max_width = 1920"

definition max_height :: nat where
  "max_height = 1080"

text \<open>
  A Python float is modelled by the real number it denotes. Float arithmetic rounds, and
  the rounding is a parameter of the model: \<open>float_div io a b\<close> is the float that
  \<^verbatim>\<open>a / b\<close> gives for two ints and \<open>float_mul io n x\<close> the float that \<^verbatim>\<open>n * x\<close>
  gives for an int and a float. Comparison of floats and \<^verbatim>\<open>int(x)\<close>, which truncates
  towards zero, are exact. A zero dimension in the resizing branch is Python's
  \<^verbatim>\<open>ZeroDivisionError\<close>; a size that PIL refuses makes \<open>image_resize\<close> raise.
\<close>

definition py_int :: "real \<Rightarrow> int" where
  "py_int x = (if 0 \<le> x then \<lfloor>x\<rfloor> else \<lceil>x\<rceil>)"

definition resize_image :: "('pil, 'arr) imaging \<Rightarrow> 'pil \<Rightarrow> 'pil outcome" where
  "resize_image io img =
     (let (width, height) = image_size io img
      in if width > max_width \<or> height > max_height then
           (if width = 0 \<or> height = 0 then Raised
            else
              (let ratio = min (float_div io max_width width) (float_div io max_height height);
                   new_width = py_int (float_mul io width ratio);
                   new_height = py_int (float_mul io height ratio)
               in image_resize io img (new_width, new_height)))
         else Returned img)"

definition enhance_contrast :: "('pil, 'arr) imaging \<Rightarrow> 'pil \<Rightarrow> 'pil outcome" where
  "enhance_contrast io img = Contrast_enhance io img 2.0"

definition enhance_edges :: "('pil, 'arr) imaging \<Rightarrow> 'pil \<Rightarrow> 'pil outcome" where
  "enhance_edges io img = image_filter io img EDGE_ENHANCE"

definition reduce_noise :: "('pil, 'arr) imaging \<Rightarrow> 'pil \<Rightarrow> 'pil outcome" where
  "reduce_noise io img = image_filter io img (MedianFilter 3)"

definition reduce_blur :: "('pil, 'arr) imaging \<Rightarrow> 'pil \<Rightarrow> 'pil outcome" where
  "reduce_blur io img = image_filter io img (UnsharpMask 2 150 3)"

definition convert_grayscale :: "('pil, 'arr) imaging \<Rightarrow> 'pil \<Rightarrow> 'pil outcome" where
  "convert_grayscale io img =
     (if image_mode io img \<noteq> ''L'' then image_convert io img ''L'' else Returned img)"

definition binarize_image :: "('pil, 'arr) imaging \<Rightarrow> 'pil \<Rightarrow> 'pil outcome" where
  "binarize_image io img =
     and_then (convert_grayscale io img) (\<lambda>gray.
     and_then (np_array io gray) (\<lambda>gray_array.
     and_then (adaptiveThreshold io gray_array) (\<lambda>binary.
     Image_fromarray io binary)))"

definition pil_to_cv2 :: "('pil, 'arr) imaging \<Rightarrow> 'pil \<Rightarrow> 'arr outcome" where
  "pil_to_cv2 io pil_image =
     and_then (if image_mode io pil_image \<noteq> ''RGB'' then image_convert io pil_image ''RGB''
               else Returned pil_image) (\<lambda>pil_image.
     and_then (np_array io pil_image) (\<lambda>cv2_image.
     cvtColor_RGB2BGR io cv2_image))"

text \<open>
  The \<^verbatim>\<open>try\<close> block of \<^verbatim>\<open>create_variants\<close> is seven blocks of the same shape, one
  after the other: transform the resized image, convert the result, append the variant.
  \<open>variant_blocks\<close> lists them in the order of the source (the first block has no
  transform); \<open>run_blocks\<close> runs them on the list \<^verbatim>\<open>variants\<close> and stops at the first
  call that raises, with the variants appended so far and the flag \<open>True\<close>.
\<close>

definition variant_blocks ::
  "('pil, 'arr) imaging \<Rightarrow> (string \<times> ('pil \<Rightarrow> 'pil outcome) \<times> string) list" where
  "variant_blocks io =
    [(''standard'', Returned, ''Original image with basic preprocessing''),
     (''high_contrast'', enhance_contrast io, ''Enhanced contrast for better barcode detection''),
     (''edge_enhanced'', enhance_edges io, ''Edge enhanced for pattern recognition''),
     (''noise_reduced'', reduce_noise io, ''Noise reduced for cleaner barcode lines''),
     (''blur_reduced'', reduce_blur io, ''Blur reduction for sharper barcode edges''),
     (''grayscale'', convert_grayscale io, ''Grayscale conversion for monochrome processing''),
     (''binary'', binarize_image io, ''Binary threshold for clear black/white separation'')]"

definition make_variant ::
  "('pil, 'arr) imaging \<Rightarrow> 'pil \<Rightarrow> string \<times> ('pil \<Rightarrow> 'pil outcome) \<times> string \<Rightarrow>
   'arr image_variant outcome" where
  "make_variant io pil_image b =
     (case b of (nm, transform, descr) \<Rightarrow>
        and_then (transform pil_image) (\<lambda>transformed.
        and_then (pil_to_cv2 io transformed) (\<lambda>cv.
        Returned \<lparr>name = nm, image = cv, description = descr\<rparr>)))"

fun run_blocks ::
  "('pil, 'arr) imaging \<Rightarrow> 'pil \<Rightarrow> (string \<times> ('pil \<Rightarrow> 'pil outcome) \<times> string) list \<Rightarrow>
   'arr image_variant list \<Rightarrow> 'arr image_variant list \<times> bool" where
  "run_blocks io pil_image [] variants = (variants, False)"
| "run_blocks io pil_image (b # bs) variants =
     (case make_variant io pil_image b of
        Raised \<Rightarrow> (variants, True)
      | Returned v \<Rightarrow> run_blocks io pil_image bs (variants @ [v]))"

definition try_block ::
  "('pil, 'arr) imaging \<Rightarrow> nat list \<Rightarrow> 'arr image_variant list \<times> bool" where
  "try_block io image_data =
     (case Image_open io image_data of
        Raised \<Rightarrow> ([], True)
      | Returned pil_image \<Rightarrow>
          (case resize_image io pil_image of
             Raised \<Rightarrow> ([], True)
           | Returned pil_image \<Rightarrow> run_blocks io pil_image (variant_blocks io) []))"

text \<open>The handler of the \<^verbatim>\<open>try\<close> block, with its own \<^verbatim>\<open>try\<close> and bare \<^verbatim>\<open>except: pass\<close>.\<close>

definition except_block ::
  "('pil, 'arr) imaging \<Rightarrow> nat list \<Rightarrow> 'arr image_variant list \<Rightarrow> 'arr image_variant list" where
  "except_block io image_data variants =
     (case and_then (Image_open io image_data) (\<lambda>pil_image.
           and_then (resize_image io pil_image) (\<lambda>pil_image.
           make_variant io pil_image (''standard'', Returned, ''Original image (fallback)''))) of
        Raised \<Rightarrow> variants
      | Returned v \<Rightarrow> variants @ [v])"

definition create_variants ::
  "('pil, 'arr) imaging \<Rightarrow> nat list \<Rightarrow> 'arr image_variant list outcome" where
  "create_variants io image_data =
     (case try_block io image_data of
        (variants, False) \<Rightarrow> Returned variants
      | (variants, True) \<Rightarrow> Returned (except_block io image_data variants))"

text \<open>The base image is valid: it opens, resizes and converts.\<close>

definition base_image :: "('pil, 'arr) imaging \<Rightarrow> nat list \<Rightarrow> 'pil \<Rightarrow> bool" where
  "base_image io image_data pil_image \<longleftrightarrow>
     and_then (Image_open io image_data) (resize_image io) = Returned pil_image \<and>
     pil_to_cv2 io pil_image \<noteq> Raised"

text \<open>
  An imaging library for the examples: an image is its mode, every image opens from
  non-empty bytes in mode RGB and is 100 by 100 (so that it is never resized and the
  float operations are never called), conversion sets the mode, and the calls listed in
  \<open>broken\<close> raise.
\<close>

datatype call = CONTRAST | FILTER pil_filter | CONVERT | THRESHOLD

definition example_imaging :: "call list \<Rightarrow> (string, string) imaging" where
  "example_imaging broken =
     \<lparr>Image_open = (\<lambda>bytes. if bytes = [] then Raised else Returned ''RGB''),
      image_size = (\<lambda>img. (100, 100)),
      image_mode = (\<lambda>img. img),
      image_resize = (\<lambda>img sz. Returned img),
      image_convert = (\<lambda>img m. if CONVERT \<in> set broken then Raised else Returned m),
      image_filter = (\<lambda>img f. if FILTER f \<in> set broken then Raised else Returned img),
      Contrast_enhance = (\<lambda>img factor. if CONTRAST \<in> set broken then Raised else Returned img),
      np_array = (\<lambda>img. Returned img),
      Image_fromarray = (\<lambda>arr. Returned arr),
      cvtColor_RGB2BGR = (\<lambda>arr. Returned arr),
      adaptiveThreshold = (\<lambda>arr. if THRESHOLD \<in> set broken then Raised else Returned arr),
      float_div = (\<lambda>a b. real a / real b),
      float_mul = (\<lambda>n x. real n * x)\<rparr>"


section \<open>The properties, in the words of the specification\<close>

text \<open>A run of between \<open>lo\<close> and \<open>hi\<close> characters, all of one class.\<close>

definition run :: "(char \<Rightarrow> bool) \<Rightarrow> nat \<Rightarrow> nat \<Rightarrow> string \<Rightarrow> bool" where
  "run P lo hi x \<longleftrightarrow> lo \<le> length x \<and> length x \<le> hi \<and> list_all P x"

definition uppercase_letter :: "char \<Rightarrow> bool" where
  "uppercase_letter c \<longleftrightarrow> 65 \<le> ord c \<and> ord c \<le> 90"

text \<open>Pure digits of length 6 to 20.\<close>

definition pure_digits :: "string \<Rightarrow> bool" where
  "pure_digits x \<longleftrightarrow> run decimal_char 6 20 x"

text \<open>Two uppercase letters followed by 8 to 15 digits.\<close>

definition letters_then_digits :: "string \<Rightarrow> bool" where
  "letters_then_digits x \<longleftrightarrow>
     run uppercase_letter 2 2 (take 2 x) \<and> run decimal_char 8 15 (drop 2 x)"

text \<open>Two or three digits, one whitespace character, 3 to 15 digits.\<close>

definition digits_space_digits :: "string \<Rightarrow> bool" where
  "digits_space_digits x \<longleftrightarrow>
     (\<exists>n \<in> {2, 3}. run decimal_char n n (take n x) \<and> run isspace_char 1 1 (take 1 (drop n x)) \<and>
        run decimal_char 3 15 (drop (Suc n) x))"

text \<open>Uppercase letters, digits and hyphens, of length 6 to 25.\<close>

definition alnum_hyphen :: "string \<Rightarrow> bool" where
  "alnum_hyphen x \<longleftrightarrow>
     run (\<lambda>c. uppercase_letter c \<or> decimal_char c \<or> c = CHR ''-'') 6 25 x"

definition generic_shape :: "string \<Rightarrow> bool" where
  "generic_shape x \<longleftrightarrow>
     pure_digits x \<or> letters_then_digits x \<or> digits_space_digits x \<or> alnum_hyphen x"

text \<open>The patterns registered for a provider id in \<^verbatim>\<open>PROVIDERS\<close>; none for an unknown id.\<close>

definition registered_patterns :: "string \<Rightarrow> pattern list" where
  "registered_patterns provider =
     (case map_of PROVIDERS provider of None \<Rightarrow> [] | Some ps \<Rightarrow> ps)"

text \<open>
  The character class of the format guess: uppercase letters, digits, whitespace and
  the symbols \<^verbatim>\<open>- . $ / + %\<close>.
\<close>

definition symbol_char :: "char \<Rightarrow> bool" where
  "symbol_char c \<longleftrightarrow>
     uppercase_letter c \<or> decimal_char c \<or> isspace_char c \<or> c \<in> set ''-.$/+%''"


section \<open>Auxiliary notions of the proofs\<close>

text \<open>A result whose score is the one \<open>calculate_confidence\<close> gives for it.\<close>

definition scored :: "string option \<Rightarrow> scan_result \<Rightarrow> bool" where
  "scored h c \<longleftrightarrow> confidence c = calculate_confidence (data c) (variant c) (engine c) h"

text \<open>The results whose payload is neither in \<open>seen\<close> nor carried by an earlier result.\<close>

fun firsts :: "string set \<Rightarrow> scan_result list \<Rightarrow> scan_result list" where
  "firsts seen [] = []"
| "firsts seen (r # rs) =
     (if data r \<in> seen then firsts seen rs else r # firsts (insert (data r) seen) rs)"

definition in_bound :: "nat option \<Rightarrow> nat \<Rightarrow> bool" where
  "in_bound hi n = (case hi of None \<Rightarrow> True | Some h \<Rightarrow> n \<le> h)"


section \<open>Examples\<close>

text \<open>
  A scanner for the examples: an image is the list of payloads a decoder reads in it,
  pyzbar returns them and the OpenCV engine returns nothing.
\<close>

definition example_scanner :: "string list scanner" where
  "example_scanner =
     \<lparr>engines =
        [\<lparr>engine_name = ''pyzbar'', scan_function = (\<lambda>img hint. Returned img), priority = 1,
          formats = [''CODE128'', ''CODE39'', ''EAN13'', ''ITF'', ''CODABAR'']\<rparr>,
         \<lparr>engine_name = ''opencv'', scan_function = (\<lambda>img hint. Returned []), priority = 3,
          formats = [''CODE128'']\<rparr>],
      ml_model = None\<rparr>"

definition example_variants :: "string list image_variant list" where
  "example_variants =
     [\<lparr>name = ''binary'', image = [''ABCDEF-1'', ''123456'', ''ZZZZZZ-9''], description = []\<rparr>,
      \<lparr>name = ''standard'', image = [''123456'', ''6412345678901'', ''abc''], description = []\<rparr>]"

definition all_broken :: "call list" where
  "all_broken =
     [CONTRAST, FILTER EDGE_ENHANCE, FILTER (MedianFilter 3), FILTER (UnsharpMask 2 150 3),
      CONVERT, THRESHOLD]"

definition example_clock :: "nat \<Rightarrow> real" where
  "example_clock n = real n"

definition example_results :: "scan_result list" where
  "example_results =
     [\<lparr>data = ''123456'', format = ''CODE39'', engine = ''pyzbar'', variant = ''binary'',
       confidence = 0.95, timestamp = 0\<rparr>,
      \<lparr>data = ''6412345678901'', format = ''EAN13'', engine = ''pyzbar'', variant = ''binary'',
       confidence = 0.95, timestamp = 1\<rparr>,
      \<lparr>data = ''123456'', format = ''CODE39'', engine = ''pyzbar'', variant = ''standard'',
       confidence = 1, timestamp = 2\<rparr>]"


section \<open>The matcher\<close>

declare re_match.simps(2) [simp del]

lemma ex_nat_split: "(\<exists>n. P n) \<longleftrightarrow> P 0 \<or> (\<exists>m. P (Suc m))"
  by (metis not0_implies_Suc)

lemma in_bound_pred: "hi \<noteq> Some 0 \<and> in_bound (map_option (\<lambda>h. h - 1) hi) m \<longleftrightarrow> in_bound hi (Suc m)"
  by (cases hi) (auto simp: in_bound_def)

lemma re_match_piece:
  "re_match (Piece cls lo hi # ps) x \<longleftrightarrow>
     (\<exists>n. lo \<le> n \<and> in_bound hi n \<and> n \<le> length x \<and> list_all (in_class cls) (take n x) \<and>
          re_match ps (drop n x))"
proof (induction x arbitrary: lo hi)
  case Nil
  show ?case by (auto simp: re_match.simps(2) in_bound_def split: option.splits)
next
  case (Cons c cs)
  have "re_match (Piece cls lo hi # ps) (c # cs) \<longleftrightarrow>
          (lo = 0 \<and> re_match ps (c # cs)) \<or>
          (hi \<noteq> Some 0 \<and> in_class cls c \<and>
           (\<exists>m. lo - 1 \<le> m \<and> in_bound (map_option (\<lambda>h. h - 1) hi) m \<and> m \<le> length cs \<and>
                list_all (in_class cls) (take m cs) \<and> re_match ps (drop m cs)))"
    by (simp only: re_match.simps(2) [of cls lo hi ps "c # cs"] list.case Cons.IH)
  also have "\<dots> \<longleftrightarrow>
          (lo = 0 \<and> re_match ps (c # cs)) \<or>
          (\<exists>m. lo \<le> Suc m \<and> in_bound hi (Suc m) \<and> m \<le> length cs \<and> in_class cls c \<and>
                list_all (in_class cls) (take m cs) \<and> re_match ps (drop m cs))"
    using in_bound_pred [of hi] by (auto simp: le_diff_conv)
  also have "\<dots> \<longleftrightarrow>
          (\<exists>n. lo \<le> n \<and> in_bound hi n \<and> n \<le> length (c # cs) \<and>
               list_all (in_class cls) (take n (c # cs)) \<and> re_match ps (drop n (c # cs)))"
    by (subst (2) ex_nat_split) (simp add: in_bound_def split: option.splits)
  finally show ?case .
qed

lemma ord_simps:
  "ord (CHR ''A'') = 65" "ord (CHR ''Z'') = 90" "ord (CHR ''0'') = 48" "ord (CHR ''9'') = 57"
  "ord (CHR 0x0A) = 10"
  by (simp_all add: ord_def)

lemma in_class_simps:
  "in_class [Digit] = decimal_char"
  "in_class [Space] = isspace_char"
  "in_class [upper] = uppercase_letter"
  "in_class [upper, digit09, Lit (CHR ''-'')] = (\<lambda>c. uppercase_letter c \<or> decimal_char c \<or> c = CHR ''-'')"
  by (auto simp: in_class_def fun_eq_iff upper_def digit09_def uppercase_letter_def decimal_char_def ord_simps)

lemma at_end_printable: "isprintable y \<Longrightarrow> at_end y \<longleftrightarrow> y = []"
  by (auto simp: at_end_def isprintable_def isprintable_char_def ord_simps)

lemma isprintable_drop: "isprintable x \<Longrightarrow> isprintable (drop n x)"
  by (auto simp: isprintable_def list_all_iff dest: in_set_dropD)

lemma re_match_last:
  assumes "isprintable x"
  shows "re_match [Piece cls lo (Some hi)] x \<longleftrightarrow> run (in_class cls) lo hi x"
proof -
  have "re_match [Piece cls lo (Some hi)] x \<longleftrightarrow>
          (\<exists>n. lo \<le> n \<and> n \<le> hi \<and> n \<le> length x \<and> list_all (in_class cls) (take n x) \<and>
               drop n x = [])"
    using at_end_printable [OF isprintable_drop [OF assms]]
    by (simp add: re_match_piece in_bound_def)
  also have "\<dots> \<longleftrightarrow> run (in_class cls) lo hi x"
    by (auto simp: run_def)
  finally show ?thesis .
qed

lemma re_match_fixed:
  "re_match (Piece cls n (Some n) # ps) x \<longleftrightarrow>
     run (in_class cls) n n (take n x) \<and> re_match ps (drop n x)"
proof -
  have "re_match (Piece cls n (Some n) # ps) x \<longleftrightarrow>
          (\<exists>k. n \<le> k \<and> k \<le> n \<and> k \<le> length x \<and> list_all (in_class cls) (take k x) \<and>
               re_match ps (drop k x))"
    by (simp add: re_match_piece in_bound_def)
  also have "\<dots> \<longleftrightarrow> n \<le> length x \<and> list_all (in_class cls) (take n x) \<and> re_match ps (drop n x)"
    by (metis le_antisym order_refl)
  also have "\<dots> \<longleftrightarrow> run (in_class cls) n n (take n x) \<and> re_match ps (drop n x)"
    by (auto simp: run_def)
  finally show ?thesis .
qed

lemma generic_1: "isprintable x \<Longrightarrow> re_match [dig 6 20] x \<longleftrightarrow> pure_digits x"
  by (simp add: dig_def re_match_last in_class_simps pure_digits_def)

lemma generic_2:
  "isprintable x \<Longrightarrow> re_match [Piece [upper] 2 (Some 2), dig 8 15] x \<longleftrightarrow> letters_then_digits x"
  by (simp add: dig_def re_match_fixed re_match_last isprintable_drop in_class_simps
      letters_then_digits_def)

lemma generic_3:
  assumes "isprintable x"
  shows "re_match [dig 2 3, sp, dig 3 15] x \<longleftrightarrow> digits_space_digits x"
proof -
  have tail: "re_match [sp, dig 3 15] (drop n x) \<longleftrightarrow>
          run isspace_char 1 1 (take 1 (drop n x)) \<and> run decimal_char 3 15 (drop (Suc n) x)" for n
    using re_match_last [OF isprintable_drop [OF assms], of "[Digit]" 3 15 "Suc n"]
    by (simp add: sp_def dig_def re_match_fixed [of _ "Suc 0"] in_class_simps)
  have "re_match [dig 2 3, sp, dig 3 15] x \<longleftrightarrow>
          (\<exists>n. 2 \<le> n \<and> n \<le> 3 \<and> n \<le> length x \<and> list_all decimal_char (take n x) \<and>
               re_match [sp, dig 3 15] (drop n x))"
    by (simp add: dig_def [of 2 3] re_match_piece in_bound_def in_class_simps)
  also have "\<dots> \<longleftrightarrow> (\<exists>n. 2 \<le> n \<and> n \<le> 3 \<and> run decimal_char n n (take n x) \<and>
               re_match [sp, dig 3 15] (drop n x))"
    by (auto simp: run_def)
  also have "\<dots> \<longleftrightarrow> (\<exists>n \<in> {2, 3}. run decimal_char n n (take n x) \<and>
               re_match [sp, dig 3 15] (drop n x))"
  proof -
    have "2 \<le> n \<and> n \<le> 3 \<longleftrightarrow> n \<in> {2, 3}" for n :: nat by auto
    then show ?thesis by (metis (no_types, lifting))
  qed
  finally show ?thesis by (simp only: tail digits_space_digits_def)
qed

lemma generic_4:
  "isprintable x \<Longrightarrow>
     re_match [Piece [upper, digit09, Lit (CHR ''-'')] 6 (Some 25)] x \<longleftrightarrow> alnum_hyphen x"
  by (simp add: re_match_last in_class_simps alnum_hyphen_def)

lemma generic_patterns_shape:
  "isprintable x \<Longrightarrow> list_ex (\<lambda>p. re_match p x) generic_patterns \<longleftrightarrow> generic_shape x"
  by (simp add: generic_patterns_def generic_shape_def generic_1 generic_2 generic_3 generic_4
      del: re_match.simps)

lemma provider_tables_agree: "provider_patterns = PROVIDERS"
  by (simp add: provider_patterns_def PROVIDERS_def)

lemma validate_provider_pattern_registered:
  "validate_provider_pattern x h \<longleftrightarrow> (\<exists>p \<in> set (registered_patterns h). re_match p x)"
  by (simp add: validate_provider_pattern_def registered_patterns_def provider_tables_agree
      list_ex_iff)

lemma shape_length: "generic_shape x \<Longrightarrow> 3 \<le> length x"
  by (auto simp: generic_shape_def pure_digits_def letters_then_digits_def digits_space_digits_def
      alnum_hyphen_def run_def)


section \<open>Scores, duplicates and ranking\<close>

lemma get_or_engine_weights: "0 \<le> get_or engine_weights e 0.1"
  by (simp add: get_or_def engine_weights_def)

lemma get_or_variant_weights: "0 \<le> get_or variant_weights v 0.05"
  by (simp add: get_or_def variant_weights_def)

lemma calculate_confidence_bounds:
  "0 \<le> calculate_confidence x v e h \<and> calculate_confidence x v e h \<le> 1"
  using get_or_engine_weights [of e] get_or_variant_weights [of v]
  by (simp add: calculate_confidence_def Let_def)

lemma scan_results_scored:
  "list_all (scored h) acc \<Longrightarrow> list_all (scored h) (scan_results clock h vn en rs acc)"
  by (induction rs arbitrary: acc) (simp_all add: scored_def)

lemma scan_engines_scored:
  "list_all (scored h) acc \<Longrightarrow> list_all (scored h) (scan_engines clock h fh v es acc)"
  by (induction es arbitrary: acc) (simp_all add: scan_results_scored split: outcome.splits)

lemma scan_variants_scored:
  "list_all (scored h) acc \<Longrightarrow> list_all (scored h) (scan_variants clock h fh es vs acc)"
  by (induction vs arbitrary: acc) (simp_all add: scan_engines_scored)

lemma all_results_scored: "list_all (scored h) (all_results self clock vs h fh)"
  by (simp add: all_results_def scan_variants_scored)

lemma remove_duplicates_loop_firsts:
  "remove_duplicates_loop rs seen u = u @ firsts seen rs"
  by (induction rs arbitrary: seen u) simp_all

lemma remove_duplicates_firsts: "remove_duplicates rs = firsts {} rs"
  by (simp add: remove_duplicates_def remove_duplicates_loop_firsts)

lemma set_firsts: "set (firsts seen rs) \<subseteq> set rs"
  by (induction rs arbitrary: seen) auto

lemma set_sorted_reverse: "set (sorted_reverse k xs) = set xs"
  by (simp add: sorted_reverse_def)

lemma scan_multiple_variants_eq:
  "scan_multiple_variants self clock vs h fh ml =
     sorted_reverse confidence (remove_duplicates (all_results self clock vs h fh))"
  by (simp add: scan_multiple_variants_def Let_def apply_ml_ranking_def)

lemma sequence_index_Cons:
  "sequence_index (r # rs) x = (if data r = x then 0 else Suc (sequence_index rs x))"
  by (simp add: sequence_index_def)

lemma sequence_index_least:
  "j < sequence_index rs x \<Longrightarrow> data (rs ! j) \<noteq> x"
proof -
  assume j: "j < sequence_index rs x"
  then have "takeWhile (\<lambda>r. data r \<noteq> x) rs ! j \<in> set (takeWhile (\<lambda>r. data r \<noteq> x) rs)"
    by (simp add: sequence_index_def)
  then show ?thesis
    using j by (auto simp: sequence_index_def takeWhile_nth dest: set_takeWhileD)
qed

lemma firsts_unseen: "c \<in> set (firsts seen rs) \<Longrightarrow> data c \<notin> seen"
  by (induction rs arbitrary: seen) (auto split: if_splits)

lemma firsts_distinct: "distinct (map data (firsts seen rs))"
  by (induction rs arbitrary: seen) (auto dest: firsts_unseen)

lemma firsts_data: "data ` set (firsts seen rs) = data ` set rs - seen"
  by (induction rs arbitrary: seen) auto

lemma firsts_position:
  "c \<in> set (firsts seen rs) \<Longrightarrow>
     sequence_index rs (data c) < length rs \<and> rs ! sequence_index rs (data c) = c"
proof (induction rs arbitrary: seen)
  case Nil
  then show ?case by simp
next
  case (Cons r rs)
  show ?case
  proof (cases "data r \<in> seen")
    case True
    with Cons.prems have c: "c \<in> set (firsts seen rs)" by simp
    then have "data c \<noteq> data r" using True firsts_unseen by metis
    then show ?thesis using Cons.IH [OF c] by (simp add: sequence_index_Cons)
  next
    case False
    with Cons.prems consider "c = r" | "c \<in> set (firsts (insert (data r) seen) rs)"
      by auto
    then show ?thesis
    proof cases
      case 1
      then show ?thesis by (simp add: sequence_index_Cons)
    next
      case 2
      then have "data c \<noteq> data r" using firsts_unseen by fastforce
      then show ?thesis using Cons.IH [OF 2] by (simp add: sequence_index_Cons)
    qed
  qed
qed

lemma firsts_in_order:
  "sorted_wrt (\<lambda>a b. sequence_index rs (data a) < sequence_index rs (data b)) (firsts seen rs)"
proof (induction rs arbitrary: seen)
  case Nil
  then show ?case by simp
next
  case (Cons r rs)
  have shift: "sorted_wrt (\<lambda>a b. sequence_index (r # rs) (data a) < sequence_index (r # rs) (data b))
                 (firsts seen' rs)" if "data r \<in> seen'" for seen'
  proof (rule sorted_wrt_mono_rel [OF _ Cons.IH [of seen']])
    fix a b
    assume "a \<in> set (firsts seen' rs)" "b \<in> set (firsts seen' rs)"
      and "sequence_index rs (data a) < sequence_index rs (data b)"
    moreover from this that have "data a \<noteq> data r" "data b \<noteq> data r"
      using firsts_unseen by metis+
    ultimately show "sequence_index (r # rs) (data a) < sequence_index (r # rs) (data b)"
      by (simp add: sequence_index_Cons)
  qed
  show ?case
  proof (cases "data r \<in> seen")
    case True
    then show ?thesis using shift [of seen] by simp
  next
    case False
    have "\<forall>b \<in> set (firsts (insert (data r) seen) rs).
            sequence_index (r # rs) (data r) < sequence_index (r # rs) (data b)"
      using firsts_unseen by (fastforce simp: sequence_index_Cons)
    then show ?thesis using False shift [of "insert (data r) seen"] by simp
  qed
qed

lemma sorted_reverse_descending:
  "sorted_wrt (\<lambda>a b. k b \<le> k a) (sorted_reverse k xs)"
proof -
  have "sorted (map k (sort_key k (rev xs)))" by simp
  then have "sorted_wrt (\<lambda>a b. k a \<le> k b) (sort_key k (rev xs))"
    by (simp only: sorted_map)
  then show ?thesis
    by (simp add: sorted_reverse_def sorted_wrt_rev)
qed

lemma sorted_reverse_stable:
  "filter (\<lambda>y. k y = v) (sorted_reverse k xs) = filter (\<lambda>y. k y = v) xs"
proof -
  have "filter (\<lambda>y. k y = v) (sorted_reverse k xs) = rev (filter (\<lambda>y. k y = v) (sort_key k (rev xs)))"
    by (simp add: sorted_reverse_def rev_filter)
  also have "\<dots> = rev (filter (\<lambda>y. k y = v) (rev xs))"
    by (simp only: sort_key_stable)
  also have "\<dots> = filter (\<lambda>y. k y = v) xs"
    by (simp add: rev_filter)
  finally show ?thesis .
qed

lemma sorted_wrt_on_filter:
  "sorted_wrt R (filter P xs) \<longleftrightarrow> sorted_wrt (\<lambda>a b. P a \<and> P b \<longrightarrow> R a b) xs"
  by (induction xs) auto

lemma sorted_reverse_ties:
  assumes "sorted_wrt R xs"
  shows "sorted_wrt (\<lambda>a b. k b < k a \<or> (k a = k b \<and> R a b)) (sorted_reverse k xs)"
proof -
  let ?out = "sorted_reverse k xs"
  have desc: "\<And>i j. i < j \<Longrightarrow> j < length ?out \<Longrightarrow> k (?out ! j) \<le> k (?out ! i)"
    using sorted_reverse_descending [of k xs] by (simp add: sorted_wrt_iff_nth_less)
  have tie: "\<And>i j. i < j \<Longrightarrow> j < length ?out \<Longrightarrow> k (?out ! i) = k (?out ! j) \<Longrightarrow> R (?out ! i) (?out ! j)"
  proof -
    fix i j
    assume ij: "i < j" "j < length ?out" and eq: "k (?out ! i) = k (?out ! j)"
    let ?v = "k (?out ! j)"
    have "sorted_wrt R (filter (\<lambda>y. k y = ?v) xs)"
      using assms by (rule sorted_wrt_filter)
    then have "sorted_wrt R (filter (\<lambda>y. k y = ?v) ?out)"
      by (simp only: sorted_reverse_stable)
    then have "sorted_wrt (\<lambda>a b. k a = ?v \<and> k b = ?v \<longrightarrow> R a b) ?out"
      by (simp only: sorted_wrt_on_filter)
    then show "R (?out ! i) (?out ! j)"
      using ij eq by (simp add: sorted_wrt_iff_nth_less)
  qed
  show ?thesis
    unfolding sorted_wrt_iff_nth_less
  proof (intro allI impI)
    fix i j
    assume ij: "i < j" "j < length ?out"
    show "k (?out ! j) < k (?out ! i) \<or> (k (?out ! i) = k (?out ! j) \<and> R (?out ! i) (?out ! j))"
      using desc [OF ij] tie [OF ij] by (cases "k (?out ! i) = k (?out ! j)") auto
  qed
qed

lemma scan_results_from_all:
  "set (scan_multiple_variants self clock vs h fh ml) \<subseteq> set (firsts {} (all_results self clock vs h fh))"
  by (simp add: scan_multiple_variants_eq set_sorted_reverse remove_duplicates_firsts)


section \<open>Provider dispatch and the format guess\<close>

lemma parse_with_ticket_pia: "x \<noteq> [] \<Longrightarrow> parse x (Some ''ticket_pia'') = parse_ticket_pia x"
  by (simp add: parse_def truthy_def parser_method_def)

lemma in_class_code39: "in_class code39_class = symbol_char"
  by (auto simp: in_class_def fun_eq_iff code39_class_def symbol_char_def upper_def digit09_def
      uppercase_letter_def decimal_char_def ord_simps)

lemma symbol_char_newline: "symbol_char (CHR 0x0A)"
  by (simp add: symbol_char_def isspace_char_def ord_simps)

lemma re_match_plus:
  assumes "P = in_class cls" "P (CHR 0x0A)"
  shows "re_match [Piece cls 1 None] x \<longleftrightarrow> x \<noteq> [] \<and> list_all P x"
proof
  assume "re_match [Piece cls 1 None] x"
  then obtain n where n: "1 \<le> n" "n \<le> length x" "list_all P (take n x)" "at_end (drop n x)"
    using assms(1) by (auto simp: re_match_piece)
  from n(4) have "list_all P (drop n x)"
    using assms(2) by (auto simp: at_end_def)
  with n(3) have "list_all P (take n x @ drop n x)"
    by (simp only: list_all_append)
  with n(1,2) show "x \<noteq> [] \<and> list_all P x" by auto
next
  assume "x \<noteq> [] \<and> list_all P x"
  then have "1 \<le> length x \<and> in_bound None (length x) \<and> length x \<le> length x \<and>
             list_all (in_class cls) (take (length x) x) \<and> re_match [] (drop (length x) x)"
    using assms(1) by (cases x) (simp_all add: in_bound_def at_end_def)
  then show "re_match [Piece cls 1 None] x"
    unfolding re_match_piece by blast
qed

lemma decimal_isdigit: "x \<noteq> [] \<Longrightarrow> list_all decimal_char x \<Longrightarrow> isdigit x"
  by (simp add: isdigit_def isdigit_char_def list_all_iff)


section \<open>Hints that name no provider\<close>

lemma provider_ids:
  "map fst PROVIDERS = [''seven_ticket'', ''ticket_pia'', ''lawson_ticket'', ''eplus'', ''cnplayguide'']"
  by (simp add: PROVIDERS_def)

lemma registered_patterns_unknown:
  "h \<notin> set (map fst PROVIDERS) \<Longrightarrow> registered_patterns h = []"
  by (simp add: registered_patterns_def map_of_eq_None_iff [THEN iffD2])

lemma validate_result_unknown:
  assumes "h \<noteq> []" "h \<notin> set (map fst PROVIDERS)"
  shows "\<not> validate_result x (Some h)"
  using assms
  by (simp add: validate_result_def truthy_def validate_provider_pattern_registered
      registered_patterns_unknown)

lemma scan_results_unknown:
  assumes "h \<noteq> []" "h \<notin> set (map fst PROVIDERS)"
  shows "scan_results clock (Some h) vn en rs acc = acc"
  using validate_result_unknown [OF assms] by (induction rs arbitrary: acc) simp_all

lemma scan_engines_unknown:
  assumes "h \<noteq> []" "h \<notin> set (map fst PROVIDERS)"
  shows "scan_engines clock (Some h) fh v es acc = acc"
  by (induction es arbitrary: acc) (simp_all add: scan_results_unknown [OF assms] split: outcome.splits)

lemma scan_variants_unknown:
  assumes "h \<noteq> []" "h \<notin> set (map fst PROVIDERS)"
  shows "scan_variants clock (Some h) fh es vs acc = acc"
  by (induction vs arbitrary: acc) (simp_all add: scan_engines_unknown [OF assms])


section \<open>The variant generator\<close>

lemma create_variants_returns: "create_variants io image_data \<noteq> Raised"
  by (simp add: create_variants_def split: prod.splits bool.splits)

lemma create_variants_undecodable:
  "Image_open io image_data = Raised \<Longrightarrow> create_variants io image_data = Returned []"
  by (simp add: create_variants_def try_block_def except_block_def and_then_def)


section \<open>The claims\<close>

text \<open>
  C1. Every candidate that \<open>scan_multiple_variants\<close> returns, for any scanner (any
  list of engines), any variants and any hints, carries the score that
  \<open>calculate_confidence\<close> computes for it, and that score lies between 0 and 1.
\<close>

theorem confidence_in_unit_interval:
  "\<forall>c \<in> set (scan_multiple_variants self clock variants provider_hint format_hint enable_ml).
     confidence c = calculate_confidence (data c) (variant c) (engine c) provider_hint \<and>
     0 \<le> confidence c \<and> confidence c \<le> 1"
proof
  fix c
  assume "c \<in> set (scan_multiple_variants self clock variants provider_hint format_hint enable_ml)"
  then have "c \<in> set (all_results self clock variants provider_hint format_hint)"
    using scan_results_from_all set_firsts by blast
  then have "scored provider_hint c"
    using all_results_scored [of provider_hint self clock variants format_hint]
    by (simp add: list_all_iff)
  then show "confidence c = calculate_confidence (data c) (variant c) (engine c) provider_hint \<and>
     0 \<le> confidence c \<and> confidence c \<le> 1"
    using calculate_confidence_bounds by (simp add: scored_def)
qed

theorem confidence_in_unit_interval_witness:
  "map confidence
     (scan_multiple_variants example_scanner example_clock example_variants None None True) =
     [1, 0.95, 0.85, 0.85] \<and>
   list_all (\<lambda>c. confidence c = calculate_confidence (data c) (variant c) (engine c) None \<and>
                 0 \<le> confidence c \<and> confidence c \<le> 1)
     (scan_multiple_variants example_scanner example_clock example_variants None None True)"
proof (rule conjI)
  show "map confidence
     (scan_multiple_variants example_scanner example_clock example_variants None None True) =
     [1, 0.95, 0.85, 0.85]"
    by code_simp
  show "list_all (\<lambda>c. confidence c = calculate_confidence (data c) (variant c) (engine c) None \<and>
                 0 \<le> confidence c \<and> confidence c \<le> 1)
     (scan_multiple_variants example_scanner example_clock example_variants None None True)"
    using confidence_in_unit_interval [of example_scanner example_clock example_variants None None True]
    by (simp only: list_all_iff)
qed

text \<open>
  C2. The list that \<open>scan_multiple_variants\<close> returns is in non-increasing order of
  confidence, and of two candidates with the same confidence the one generated first
  comes first: each returned candidate stands in \<open>all_results\<close> at its
  \<open>sequence_index\<close>, the place where it was appended during the variant-major,
  engine-minor iteration, and among equal confidences these places increase.
\<close>

theorem ranking_is_stable:
  "sorted_wrt
     (\<lambda>a b. confidence b \<le> confidence a \<and>
        (confidence a = confidence b \<longrightarrow>
           sequence_index (all_results self clock variants provider_hint format_hint) (data a)
           < sequence_index (all_results self clock variants provider_hint format_hint) (data b)))
     (scan_multiple_variants self clock variants provider_hint format_hint enable_ml) \<and>
   (\<forall>c \<in> set (scan_multiple_variants self clock variants provider_hint format_hint enable_ml).
      sequence_index (all_results self clock variants provider_hint format_hint) (data c)
        < length (all_results self clock variants provider_hint format_hint) \<and>
      all_results self clock variants provider_hint format_hint
        ! sequence_index (all_results self clock variants provider_hint format_hint) (data c) = c)"
proof (rule conjI)
  let ?all = "all_results self clock variants provider_hint format_hint"
  let ?out = "scan_multiple_variants self clock variants provider_hint format_hint enable_ml"
  have "sorted_wrt
          (\<lambda>a b. confidence b < confidence a \<or>
             (confidence a = confidence b \<and>
              sequence_index ?all (data a) < sequence_index ?all (data b))) ?out"
    using sorted_reverse_ties [OF firsts_in_order [of ?all "{}"], of confidence]
    by (simp add: scan_multiple_variants_eq remove_duplicates_firsts)
  then show "sorted_wrt
          (\<lambda>a b. confidence b \<le> confidence a \<and>
             (confidence a = confidence b \<longrightarrow>
              sequence_index ?all (data a) < sequence_index ?all (data b))) ?out"
    by (rule sorted_wrt_mono_rel [rotated]) auto
  show "\<forall>c \<in> set ?out. sequence_index ?all (data c) < length ?all \<and>
          ?all ! sequence_index ?all (data c) = c"
    using scan_results_from_all firsts_position by blast
qed

theorem ranking_is_stable_witness:
  "map data
     (scan_multiple_variants example_scanner example_clock example_variants None None True) =
     [''6412345678901'', ''123456'', ''ABCDEF-1'', ''ZZZZZZ-9''] \<and>
   map (sequence_index (all_results example_scanner example_clock example_variants None None))
     [''6412345678901'', ''123456'', ''ABCDEF-1'', ''ZZZZZZ-9''] = [4, 1, 0, 2] \<and>
   sorted_wrt
     (\<lambda>a b. confidence b \<le> confidence a \<and>
        (confidence a = confidence b \<longrightarrow>
           sequence_index (all_results example_scanner example_clock example_variants None None) (data a)
           < sequence_index (all_results example_scanner example_clock example_variants None None) (data b)))
     (scan_multiple_variants example_scanner example_clock example_variants None None True)"
proof (intro conjI)
  show "map data
     (scan_multiple_variants example_scanner example_clock example_variants None None True) =
     [''6412345678901'', ''123456'', ''ABCDEF-1'', ''ZZZZZZ-9'']"
    by code_simp
  show "map (sequence_index (all_results example_scanner example_clock example_variants None None))
     [''6412345678901'', ''123456'', ''ABCDEF-1'', ''ZZZZZZ-9''] = [4, 1, 0, 2]"
    by code_simp
  show "sorted_wrt
     (\<lambda>a b. confidence b \<le> confidence a \<and>
        (confidence a = confidence b \<longrightarrow>
           sequence_index (all_results example_scanner example_clock example_variants None None) (data a)
           < sequence_index (all_results example_scanner example_clock example_variants None None) (data b)))
     (scan_multiple_variants example_scanner example_clock example_variants None None True)"
    by (rule conjunct1 [OF ranking_is_stable])
qed

text \<open>
  C3. \<open>remove_duplicates\<close> keeps exactly one candidate for each distinct payload of
  its input: the payloads of the output are distinct and are those of the input, each
  kept candidate is the one at the smallest position of the input that carries its
  payload (every other candidate with that payload is dropped), and the kept
  candidates stay in the order of these positions.
\<close>

theorem remove_duplicates_keeps_first:
  "distinct (map data (remove_duplicates rs)) \<and>
   set (map data (remove_duplicates rs)) = set (map data rs) \<and>
   (\<forall>c \<in> set (remove_duplicates rs).
      sequence_index rs (data c) < length rs \<and>
      rs ! sequence_index rs (data c) = c \<and>
      (\<forall>j < sequence_index rs (data c). data (rs ! j) \<noteq> data c)) \<and>
   sorted_wrt (\<lambda>a b. sequence_index rs (data a) < sequence_index rs (data b))
     (remove_duplicates rs)"
proof (intro conjI)
  show "distinct (map data (remove_duplicates rs))"
    by (simp only: remove_duplicates_firsts firsts_distinct)
  show "set (map data (remove_duplicates rs)) = set (map data rs)"
    using firsts_data [of "{}" rs] by (simp add: remove_duplicates_firsts)
  show "\<forall>c \<in> set (remove_duplicates rs).
      sequence_index rs (data c) < length rs \<and>
      rs ! sequence_index rs (data c) = c \<and>
      (\<forall>j < sequence_index rs (data c). data (rs ! j) \<noteq> data c)"
    using firsts_position [of _ "{}" rs] sequence_index_least [of _ rs]
    by (simp add: remove_duplicates_firsts)
  show "sorted_wrt (\<lambda>a b. sequence_index rs (data a) < sequence_index rs (data b))
     (remove_duplicates rs)"
    by (simp only: remove_duplicates_firsts firsts_in_order)
qed

theorem remove_duplicates_keeps_first_witness:
  "remove_duplicates example_results = [example_results ! 0, example_results ! 1] \<and>
   data (example_results ! 2) = data (example_results ! 0) \<and>
   list_all (\<lambda>c. sequence_index example_results (data c) < length example_results \<and>
                 example_results ! sequence_index example_results (data c) = c)
     (remove_duplicates example_results)"
proof (intro conjI)
  show "remove_duplicates example_results = [example_results ! 0, example_results ! 1]"
    by code_simp
  show "data (example_results ! 2) = data (example_results ! 0)"
    by code_simp
  show "list_all (\<lambda>c. sequence_index example_results (data c) < length example_results \<and>
                 example_results ! sequence_index example_results (data c) = c)
     (remove_duplicates example_results)"
    using remove_duplicates_keeps_first [of example_results] by (simp add: list_all_iff)
qed

text \<open>
  C4. The claim is that a valid image on which every enhancement raises gives exactly one
  variant, named \<^verbatim>\<open>standard\<close>. The code does otherwise, against its own comment (on an
  error, return the original image only): the handler appends the fallback variant to
  the list that already holds the variants of the \<^verbatim>\<open>try\<close> block. At an image that opens
  in mode RGB, 100 by 100, and converts, with every enhancement raising,
  \<open>create_variants\<close> returns two variants, both named \<^verbatim>\<open>standard\<close>. With the noise
  reduction alone raising, it returns \<^verbatim>\<open>standard\<close>, \<^verbatim>\<open>high_contrast\<close>,
  \<^verbatim>\<open>edge_enhanced\<close> and a second \<^verbatim>\<open>standard\<close>: the later variants are missing
  although their transforms succeed.
\<close>

theorem failing_enhancements_duplicate_standard:
  "base_image (example_imaging all_broken) [1] ''RGB'' \<and>
   enhance_contrast (example_imaging all_broken) ''RGB'' = Raised \<and>
   enhance_edges (example_imaging all_broken) ''RGB'' = Raised \<and>
   reduce_noise (example_imaging all_broken) ''RGB'' = Raised \<and>
   reduce_blur (example_imaging all_broken) ''RGB'' = Raised \<and>
   convert_grayscale (example_imaging all_broken) ''RGB'' = Raised \<and>
   binarize_image (example_imaging all_broken) ''RGB'' = Raised \<and>
   create_variants (example_imaging all_broken) [1] =
     Returned
       [\<lparr>name = ''standard'', image = ''RGB'',
         description = ''Original image with basic preprocessing''\<rparr>,
        \<lparr>name = ''standard'', image = ''RGB'', description = ''Original image (fallback)''\<rparr>] \<and>
   reduce_noise (example_imaging [FILTER (MedianFilter 3)]) ''RGB'' = Raised \<and>
   reduce_blur (example_imaging [FILTER (MedianFilter 3)]) ''RGB'' = Returned ''RGB'' \<and>
   map_outcome (map name) (create_variants (example_imaging [FILTER (MedianFilter 3)]) [1]) =
     Returned [''standard'', ''high_contrast'', ''edge_enhanced'', ''standard'']"
  by code_simp

text \<open>
  C5, as amended. \<open>create_variants\<close> never raises; when the bytes cannot be opened as
  an image it returns the empty list.

  The claim as stated fails: no error is signalled for undecodable bytes, the call
  returns normally.
\<close>

theorem undecodable_image_gives_no_variants:
  "create_variants io image_data \<noteq> Raised \<and>
   (Image_open io image_data = Raised \<longrightarrow> create_variants io image_data = Returned [])"
  by (simp add: create_variants_returns create_variants_undecodable)

theorem undecodable_image_gives_no_variants_witness:
  "Image_open (example_imaging all_broken) [] = Raised \<and>
   create_variants (example_imaging all_broken) [] = Returned []"
proof -
  have o: "Image_open (example_imaging all_broken) [] = Raised"
    by code_simp
  with undecodable_image_gives_no_variants [of "example_imaging all_broken" "[]"]
  show ?thesis by blast
qed

theorem undecodable_image_returns_normally:
  "Image_open (example_imaging []) [] = Raised \<and>
   create_variants (example_imaging []) [] = Returned [] \<and>
   create_variants (example_imaging []) [] \<noteq> Raised"
  by code_simp

text \<open>
  C6. A raw decode string passes \<open>validate_result\<close> if and only if its length is at
  least 3, every character is printable, and: when no provider hint is given, it has one
  of the four generic shapes (pure digits of length 6 to 20; two uppercase letters
  followed by 8 to 15 digits; two or three digits, one whitespace character, 3 to 15
  digits; uppercase letters, digits and hyphens of length 6 to 25); when a provider hint
  is given, it matches at least one pattern registered for that provider in
  \<^verbatim>\<open>PROVIDERS\<close>. A hint is given when it is a non-empty string: the code takes
  \<^verbatim>\<open>None\<close> and \<^verbatim>\<open>''\<close> alike for no hint.
\<close>

theorem validate_result_characterised:
  "validate_result x provider_hint \<longleftrightarrow>
     3 \<le> length x \<and> isprintable x \<and>
     (if provider_hint = None \<or> provider_hint = Some []
      then generic_shape x
      else \<exists>p \<in> set (registered_patterns (the provider_hint)). re_match p x)"
proof (cases "truthy provider_hint")
  case True
  then have "provider_hint \<noteq> None \<and> provider_hint \<noteq> Some []"
    by (cases provider_hint) (auto simp: truthy_def)
  with True show ?thesis
    by (auto simp: validate_result_def validate_provider_pattern_registered)
next
  case False
  then have "provider_hint = None \<or> provider_hint = Some []"
    by (cases provider_hint) (auto simp: truthy_def)
  with False show ?thesis
    using shape_length [of x]
    by (auto simp: validate_result_def generic_patterns_shape)
qed

theorem validate_result_characterised_witness:
  "validate_result ''12 345'' None \<and> validate_result ''12 345'' (Some []) \<and>
   validate_result ''EP1234567890'' (Some ''eplus'') \<and>
   validate_result ''EP1234567890'' (Some ''ticket_pia'') = False"
proof -
  have a: "3 \<le> length ''12 345'' \<and> isprintable ''12 345'' \<and> generic_shape ''12 345''"
    by code_simp
  have b: "3 \<le> length ''EP1234567890'' \<and> isprintable ''EP1234567890'' \<and>
           (\<exists>p \<in> set (registered_patterns ''eplus''). re_match p ''EP1234567890'')"
    by code_simp
  have c: "\<not> (\<exists>p \<in> set (registered_patterns ''ticket_pia''). re_match p ''EP1234567890'')"
    by code_simp
  show ?thesis
    using a b c
      validate_result_characterised [of "''12 345''" None]
      validate_result_characterised [of "''12 345''" "Some []"]
      validate_result_characterised [of "''EP1234567890''" "Some ''eplus''"]
      validate_result_characterised [of "''EP1234567890''" "Some ''ticket_pia''"]
    by simp
qed

text \<open>
  C7. \<open>detect_provider\<close> finds \<^verbatim>\<open>ticket_pia\<close> for \<^verbatim>\<open>6412345678901\<close>, and \<open>parse\<close> of
  that string gives the prefix \<^verbatim>\<open>64\<close> and the ticket number \<^verbatim>\<open>12345678901\<close>. For
  every string, the ticket\_pia rule gives the prefix \<^verbatim>\<open>640032\<close> and the rest after six
  characters when the string starts with \<^verbatim>\<open>640032\<close>, and otherwise the prefix
  \<^verbatim>\<open>64\<close> and the rest after two characters; \<open>parse\<close> with the provider
  \<^verbatim>\<open>ticket_pia\<close> applies this rule to every non-empty string.
\<close>

theorem ticket_pia_rule:
  "detect_provider ''6412345678901'' = Some ''ticket_pia'' \<and>
   parse ''6412345678901'' None ''provider'' = Some (PyStr ''ticket_pia'') \<and>
   parse ''6412345678901'' None ''prefix'' = Some (PyStr ''64'') \<and>
   parse ''6412345678901'' None ''ticket_number'' = Some (PyStr ''12345678901'') \<and>
   parse_ticket_pia x ''prefix'' =
     Some (PyStr (if startswith x ''640032'' then ''640032'' else ''64'')) \<and>
   parse_ticket_pia x ''ticket_number'' =
     Some (PyStr (if startswith x ''640032'' then drop 6 x else drop 2 x)) \<and>
   (x \<noteq> [] \<longrightarrow> parse x (Some ''ticket_pia'') = parse_ticket_pia x)"
proof (intro conjI)
  show d: "detect_provider ''6412345678901'' = Some ''ticket_pia''"
    by code_simp
  have p: "parse ''6412345678901'' None = parse_ticket_pia ''6412345678901''"
    by (simp add: d parse_def truthy_def parser_method_def)
  show "parse ''6412345678901'' None ''provider'' = Some (PyStr ''ticket_pia'')"
    by (simp add: p parse_ticket_pia_def startswith_def)
  show "parse ''6412345678901'' None ''prefix'' = Some (PyStr ''64'')"
    by (simp add: p parse_ticket_pia_def startswith_def)
  show "parse ''6412345678901'' None ''ticket_number'' = Some (PyStr ''12345678901'')"
    by (simp add: p parse_ticket_pia_def startswith_def)
  show "parse_ticket_pia x ''prefix'' =
     Some (PyStr (if startswith x ''640032'' then ''640032'' else ''64''))"
    by (simp add: parse_ticket_pia_def)
  show "parse_ticket_pia x ''ticket_number'' =
     Some (PyStr (if startswith x ''640032'' then drop 6 x else drop 2 x))"
    by (simp add: parse_ticket_pia_def)
  show "x \<noteq> [] \<longrightarrow> parse x (Some ''ticket_pia'') = parse_ticket_pia x"
    by (simp add: parse_with_ticket_pia)
qed

theorem ticket_pia_rule_witness:
  "parse ''6400321234567'' (Some ''ticket_pia'') ''prefix'' = Some (PyStr ''640032'') \<and>
   parse ''6400321234567'' (Some ''ticket_pia'') ''ticket_number'' = Some (PyStr ''1234567'') \<and>
   parse_ticket_pia ''6499'' ''ticket_number'' = Some (PyStr ''99'')"
  using ticket_pia_rule [of "''6400321234567''"] ticket_pia_rule [of "''6499''"]
  by (simp add: startswith_def)

text \<open>
  C8, as amended. The format guess of \<^verbatim>\<open>4901234567894\<close> is the label \<^verbatim>\<open>EAN13\<close>, and
  so is the guess of every string of exactly 13 digits. In general the guess follows
  the branch order: 13 characters, all digits, gives \<^verbatim>\<open>EAN13\<close>; else a non-empty
  string over the class of uppercase letters, digits, whitespace and \<^verbatim>\<open>- . $ / + %\<close>
  gives \<^verbatim>\<open>CODE39\<close> up to length 43 and \<^verbatim>\<open>CODE128\<close> beyond; else all digits and an
  even length gives \<^verbatim>\<open>ITF\<close>; else \<^verbatim>\<open>CODE128\<close>.

  The claim as stated fails on the labels: the code returns \<^verbatim>\<open>EAN13\<close>, not
  \<^verbatim>\<open>checksummed-13\<close>.
\<close>

theorem format_guess:
  "detect_format ''4901234567894'' = ''EAN13'' \<and>
   (length x = 13 \<and> list_all decimal_char x \<longrightarrow> detect_format x = ''EAN13'') \<and>
   detect_format x =
     (if length x = 13 \<and> isdigit x then ''EAN13''
      else if x \<noteq> [] \<and> list_all symbol_char x then
        (if length x \<le> 43 then ''CODE39'' else ''CODE128'')
      else if isdigit x \<and> even (length x) then ''ITF''
      else ''CODE128'')"
proof (intro conjI)
  show "detect_format ''4901234567894'' = ''EAN13''"
    by code_simp
  show "length x = 13 \<and> list_all decimal_char x \<longrightarrow> detect_format x = ''EAN13''"
  proof
    assume a: "length x = 13 \<and> list_all decimal_char x"
    then have "x \<noteq> []" by auto
    with a have "isdigit x" by (simp add: decimal_isdigit)
    with a show "detect_format x = ''EAN13''" by (simp add: detect_format_def)
  qed
  show "detect_format x =
     (if length x = 13 \<and> isdigit x then ''EAN13''
      else if x \<noteq> [] \<and> list_all symbol_char x then
        (if length x \<le> 43 then ''CODE39'' else ''CODE128'')
      else if isdigit x \<and> even (length x) then ''ITF''
      else ''CODE128'')"
    unfolding detect_format_def
      re_match_plus [OF in_class_code39 [symmetric] symbol_char_newline, of x]
    by (simp add: even_iff_mod_2_eq_zero)
qed

theorem format_guess_witness:
  "detect_format [CHR 0xB2, CHR 0xB2] = ''ITF'' \<and> detect_format ''AB-12'' = ''CODE39'' \<and>
   detect_format ''ab'' = ''CODE128'' \<and> detect_format ''0000000000000'' = ''EAN13''"
  using format_guess [of "[CHR 0xB2, CHR 0xB2]"] format_guess [of "''AB-12''"]
    format_guess [of "''ab''"] format_guess [of "''0000000000000''"]
  by (simp add: isdigit_def isdigit_char_def decimal_char_def symbol_char_def uppercase_letter_def
      isspace_char_def ord_def)

theorem format_guess_not_spec_label:
  "detect_format ''4901234567894'' \<noteq> ''checksummed-13''"
  by code_simp

text \<open>
  C9. For every provider argument, supplied or omitted, \<open>parse\<close> of the empty string
  is the empty mapping, with no field at all, and \<open>detect_provider\<close> of the empty
  string is \<^verbatim>\<open>None\<close>.
\<close>

theorem parse_empty_string:
  "parse [] provider = Map.empty \<and> dom (parse [] provider) = {} \<and> detect_provider [] = None"
  by (simp add: parse_def detect_provider_def)

theorem parse_empty_string_witness:
  "parse [] (Some ''ticket_pia'') = Map.empty \<and> parse [] None = Map.empty \<and>
   parse [] (Some ''ticket_pia'') ''provider'' = None \<and> detect_provider [] = None"
  using parse_empty_string [of "Some ''ticket_pia''"] parse_empty_string [of None]
  by simp

text \<open>
  C10, as amended. For every scanner, every list of variants and every non-empty
  provider hint that is not one of the five registered provider ids,
  \<open>scan_multiple_variants\<close> returns the empty list.

  The claim as stated fails for the hint \<^verbatim>\<open>''\<close>, which is none of the five ids: it
  counts as no hint, and the generic patterns let candidates through.
\<close>

theorem unknown_provider_hint_rejects_all:
  assumes "provider_hint \<noteq> []"
    and "provider_hint \<notin> set [''seven_ticket'', ''ticket_pia'', ''lawson_ticket'', ''eplus'', ''cnplayguide'']"
  shows "scan_multiple_variants self clock variants (Some provider_hint) format_hint enable_ml = []"
proof -
  have "provider_hint \<notin> set (map fst PROVIDERS)"
    unfolding provider_ids by (rule assms(2))
  then have "all_results self clock variants (Some provider_hint) format_hint = []"
    using assms(1) by (simp add: all_results_def scan_variants_unknown)
  then show ?thesis
    by (simp add: scan_multiple_variants_eq remove_duplicates_def sorted_reverse_def)
qed

theorem unknown_provider_hint_rejects_all_witness:
  "scan_multiple_variants example_scanner example_clock example_variants (Some ''ticketmaster'')
     None True = [] \<and>
   map data (scan_multiple_variants example_scanner example_clock example_variants
     (Some ''ticket_pia'') None True) = [''6412345678901'']"
proof (rule conjI)
  show "scan_multiple_variants example_scanner example_clock example_variants (Some ''ticketmaster'')
     None True = []"
    by (rule unknown_provider_hint_rejects_all) simp_all
  show "map data (scan_multiple_variants example_scanner example_clock example_variants
     (Some ''ticket_pia'') None True) = [''6412345678901'']"
    by code_simp
qed

theorem empty_hint_is_no_hint:
  "[] \<notin> set [''seven_ticket'', ''ticket_pia'', ''lawson_ticket'', ''eplus'', ''cnplayguide''] \<and>
   map data (scan_multiple_variants example_scanner example_clock example_variants (Some []) None True)
     = [''6412345678901'', ''123456'', ''ABCDEF-1'', ''ZZZZZZ-9'']"
  by code_simp

end
